theory Spec2Isabelle
  imports Main
begin

section \<open>Syntax trees (go/ast, go/token)\<close>

text \<open>
  A \<open>token.Pos\<close> is an integer offset into the file set. The operator tokens are the
  ones that occur in unary and binary expressions.
\<close>

type_synonym Pos = int

datatype Token =
    ADD | SUB | MUL | QUO | REM
  | AND | OR | XOR | SHL | SHR | AND_NOT
  | LAND | LOR | ARROW
  | EQL | LSS | GTR | NOT
  | NEQ | LEQ | GEQ | TILDE

text \<open>
  The nodes of a file. The analyzer looks only at \<open>*ast.BinaryExpr\<close>; the expression
  forms of the example programs are kept as they are in \<open>go/ast\<close>, and every other kind of
  node (declarations, statements, the remaining expressions, the file itself) is
  \<open>Other\<close>: its start position and its children in the order \<open>ast.Walk\<close> visits them.
\<close>

datatype Node =
    Ident Pos string
  | BasicLit Pos string
  | ParenExpr Pos Node
  | StarExpr Pos Node
  | UnaryExpr Pos Token Node
  | BinaryExpr Node Pos Token Node
  | Other Pos "Node list"

text \<open>
  \<open>Pos()\<close> of a node: a binary expression starts where its left operand starts.
\<close>

fun NodePos :: "Node \<Rightarrow> Pos" where
  "NodePos (Ident namePos name) = namePos"
| "NodePos (BasicLit valuePos v) = valuePos"
| "NodePos (ParenExpr lparen x) = lparen"
| "NodePos (StarExpr star x) = star"
| "NodePos (UnaryExpr opPos op x) = opPos"
| "NodePos (BinaryExpr x opPos op y) = NodePos x"
| "NodePos (Other p children) = p"

datatype NodeType =
    TIdent | TBasicLit | TParenExpr | TStarExpr | TUnaryExpr | TBinaryExpr | TOther

fun typeOf :: "Node \<Rightarrow> NodeType" where
  "typeOf (Ident namePos name) = TIdent"
| "typeOf (BasicLit valuePos v) = TBasicLit"
| "typeOf (ParenExpr lparen x) = TParenExpr"
| "typeOf (StarExpr star x) = TStarExpr"
| "typeOf (UnaryExpr opPos op x) = TUnaryExpr"
| "typeOf (BinaryExpr x opPos op y) = TBinaryExpr"
| "typeOf (Other p children) = TOther"

text \<open>
  The depth-first walk of \<open>ast.Inspect\<close>: a node, then its children from left to
  right.
\<close>

fun preorder :: "Node \<Rightarrow> Node list" where
  "preorder (Ident namePos name) = [Ident namePos name]"
| "preorder (BasicLit valuePos v) = [BasicLit valuePos v]"
| "preorder (ParenExpr lparen x) = ParenExpr lparen x # preorder x"
| "preorder (StarExpr star x) = StarExpr star x # preorder x"
| "preorder (UnaryExpr opPos op x) = UnaryExpr opPos op x # preorder x"
| "preorder (BinaryExpr x opPos op y) = BinaryExpr x opPos op y # preorder x @ preorder y"
| "preorder (Other p children) = Other p children # concat (map preorder children)"

section \<open>The inspector (golang.org/x/tools/go/ast/inspector)\<close>

text \<open>
  An inspector holds the events of one walk over the files it was built from; the model
  keeps the nodes in the order in which the walk enters them. \<open>Preorder\<close> calls \<open>f\<close> on
  every node whose type is in \<open>types\<close>, in that order.
\<close>

datatype Inspector = Inspector (events: "Node list")

definition New :: "Node list \<Rightarrow> Inspector" where
  "New files = Inspector (concat (map preorder files))"

definition Preorder ::
  "Inspector \<Rightarrow> NodeType list \<Rightarrow> (Node option \<Rightarrow> 'r \<Rightarrow> 'r) \<Rightarrow> 'r \<Rightarrow> 'r" where
  "Preorder inspect types f r =
     fold (\<lambda>n. f (Some n)) (filter (\<lambda>n. typeOf n \<in> set types) (events inspect)) r"

section \<open>Types (go/types)\<close>

datatype BasicKind =
    Invalid
  | Bool | Int' | Int8 | Int16 | Int32 | Int64
  | Uint | Uint8 | Uint16 | Uint32 | Uint64 | Uintptr
  | Float32 | Float64 | Complex64 | Complex128
  | String | UnsafePointer
  | UntypedBool | UntypedInt | UntypedRune | UntypedFloat | UntypedComplex
  | UntypedString | UntypedNil

datatype ChanDir = SendRecv | SendOnly | RecvOnly

text \<open>
  The types of the type checker. A \<open>Basic\<close> has a kind and a name (\<open>byte\<close> and \<open>uint8\<close>
  share a kind; the kind \<open>Int\<close> is written \<open>Int'\<close>). A \<open>Named\<close> type has its name and the
  type of its declaration, an \<open>Alias\<close> (present when the type checker keeps alias
  names as types of their own) its name and the type it stands for, a type parameter
  its name and its constraint.
\<close>

datatype GoType =
    Basic BasicKind string
  | Pointer GoType
  | Array int GoType
  | Slice GoType
  | Struct "(string \<times> GoType) list"
  | Tuple "GoType list"
  | Signature "GoType list" "GoType list"
  | Interface "string list" "GoType list"
  | Map GoType GoType
  | Chan ChanDir GoType
  | Named string GoType
  | TypeParam string GoType
  | Alias string GoType

fun Unalias :: "GoType \<Rightarrow> GoType" where
  "Unalias (Alias name t) = Unalias t"
| "Unalias t = t"

definition isTypeParam :: "GoType \<Rightarrow> bool" where
  "isTypeParam t = (case Unalias t of TypeParam name bound \<Rightarrow> True | _ \<Rightarrow> False)"

text \<open>
  \<open>Underlying()\<close>: a named type and an alias resolve to the underlying type of the type
  they are declared with, which is never itself named; a type parameter resolves to the
  interface of its constraint (the empty interface for an invalid constraint, and a
  constraint that is not an interface is wrapped into one); every other type is its own
  underlying type.
\<close>

fun Underlying :: "GoType \<Rightarrow> GoType" where
  "Underlying (Named name t) = Underlying t"
| "Underlying (Alias name t) = Underlying t"
| "Underlying (TypeParam name bound) =
     (case Underlying bound of
        Basic kind nm \<Rightarrow> if kind = Invalid then Interface [] [] else Interface [] [bound]
      | Interface methods embeddeds \<Rightarrow>
          if isTypeParam bound then Interface [] [] else Interface methods embeddeds
      | _ \<Rightarrow> Interface [] [bound])"
| "Underlying t = t"

section \<open>The analysis pass (golang.org/x/tools/go/analysis)\<close>

record Diagnostic =
  Pos :: Pos
  Message :: string

text \<open>
  What the analyzer reads from its \<open>analysis.Pass\<close>: the files, \<open>TypesInfo.TypeOf\<close> (the
  type recorded for an expression, \<open>None\<close> for \<open>nil\<close> when there is none), the entry of
  \<open>ResultOf\<close> for the inspect analyzer (\<open>None\<close> when it is absent), and the driver's
  \<open>Report\<close> callback, which acts on the driver's state \<open>'r\<close>.
\<close>

record 'r Pass =
  Files :: "Node list"
  TypesInfo :: "Node \<Rightarrow> GoType option"
  ResultOf :: "Inspector option"
  Report :: "Diagnostic \<Rightarrow> 'r \<Rightarrow> 'r"

text \<open>What a call of an analyzer's \<open>Run\<close> does: it panics, or returns \<open>(any, error)\<close>.\<close>

datatype Outcome = Panicked | Returned "unit option" "string option"

section \<open>main.go\<close>

definition isPointerType :: "'r Pass \<Rightarrow> Node \<Rightarrow> bool" where
  "isPointerType pass expr =
     (case TypesInfo pass expr of
        None \<Rightarrow> False
      | Some exprType \<Rightarrow> (case exprType of Pointer elem \<Rightarrow> True | _ \<Rightarrow> False))"

definition getUnderlyingType :: "'r Pass \<Rightarrow> Node \<Rightarrow> GoType option" where
  "getUnderlyingType pass expr =
     (case TypesInfo pass expr of
        None \<Rightarrow> None
      | Some exprType \<Rightarrow> (case exprType of Pointer elem \<Rightarrow> Some elem | _ \<Rightarrow> Some exprType))"

definition isBasicType :: "GoType option \<Rightarrow> bool" where
  "isBasicType t =
     (case t of
        None \<Rightarrow> False
      | Some ty \<Rightarrow> (case Underlying ty of Basic kind name \<Rightarrow> True | _ \<Rightarrow> False))"

text \<open>
  \<open>%v\<close> of a \<open>types.Type\<close>: its \<open>String()\<close>, which is the type library's rendering and a
  parameter \<open>str\<close> here, or \<open><nil>\<close> for the nil interface.
\<close>

definition fmt_v :: "(GoType \<Rightarrow> string) \<Rightarrow> GoType option \<Rightarrow> string" where
  "fmt_v str t = (case t of None \<Rightarrow> ''<nil>'' | Some ty \<Rightarrow> str ty)"

definition Sprintf_message :: "(GoType \<Rightarrow> string) \<Rightarrow> GoType option \<Rightarrow> GoType option \<Rightarrow> string" where
  "Sprintf_message str leftType rightType =
     ''comparing pointers to basic types: '' @ fmt_v str leftType @ '' and '' @ fmt_v str rightType"

text \<open>The function literal that \<open>run\<close> hands to \<open>Preorder\<close>.\<close>

definition run_func1 :: "(GoType \<Rightarrow> string) \<Rightarrow> 'r Pass \<Rightarrow> Node option \<Rightarrow> 'r \<Rightarrow> 'r" where
  "run_func1 str pass n r =
     (case n of
        None \<Rightarrow> r
      | Some node \<Rightarrow>
          (case node of
             BinaryExpr x opPos op y \<Rightarrow>
               if op \<in> set [EQL, NEQ, LSS, GTR, LEQ, GEQ] then
                 if isPointerType pass x \<and> isPointerType pass y then
                   let leftType = getUnderlyingType pass x;
                       rightType = getUnderlyingType pass y
                   in if isBasicType leftType \<and> isBasicType rightType then
                        Report pass
                          \<lparr>Pos = NodePos node,
                           Message = Sprintf_message str leftType rightType\<rparr> r
                      else r
                 else r
               else r
           | _ \<Rightarrow> r))"

definition run :: "(GoType \<Rightarrow> string) \<Rightarrow> 'r Pass \<Rightarrow> 'r \<Rightarrow> Outcome \<times> 'r" where
  "run str pass r =
     (case ResultOf pass of
        None \<Rightarrow> (Panicked, r)
      | Some inspect \<Rightarrow>
          (Returned None None, Preorder inspect [TBinaryExpr] (run_func1 str pass) r))"

text \<open>
  The guard under which the function literal reports, and the diagnostic it builds
  there, as functions of the node.
\<close>

definition qualifying :: "'r Pass \<Rightarrow> Node \<Rightarrow> bool" where
  "qualifying pass n =
     (case n of
        BinaryExpr x opPos op y \<Rightarrow>
          op \<in> set [EQL, NEQ, LSS, GTR, LEQ, GEQ] \<and>
          isPointerType pass x \<and> isPointerType pass y \<and>
          isBasicType (getUnderlyingType pass x) \<and> isBasicType (getUnderlyingType pass y)
      | _ \<Rightarrow> False)"

definition diagnosticOf :: "(GoType \<Rightarrow> string) \<Rightarrow> 'r Pass \<Rightarrow> Node \<Rightarrow> Diagnostic" where
  "diagnosticOf str pass n =
     (case n of
        BinaryExpr x opPos op y \<Rightarrow>
          \<lparr>Pos = NodePos n,
           Message = Sprintf_message str (getUnderlyingType pass x) (getUnderlyingType pass y)\<rparr>
      | _ \<Rightarrow> \<lparr>Pos = NodePos n, Message = []\<rparr>)"

text \<open>
  \<open>parseDir\<close> builds the pass of a package: the inspector is the result of the inspect
  analyzer on the same files, and \<open>Report\<close> renders the diagnostic as
  \<open>file:line:column: message\<close> and appends it to \<open>results\<close>. \<open>Fset.Position\<close> is the
  parameter \<open>fset\<close>.
\<close>

record Position =
  Filename :: string
  Offset :: int
  Line :: int
  Column :: int

fun digits :: "nat \<Rightarrow> string" where
  "digits n =
     (if n < 10 then [''0123456789'' ! n]
      else digits (n div 10) @ [''0123456789'' ! (n mod 10)])"

declare digits.simps [simp del]

definition fmt_d :: "int \<Rightarrow> string" where
  "fmt_d i = (if i < 0 then CHR ''-'' # digits (nat (- i)) else digits (nat i))"

definition parseDir_Sprintf :: "(Pos \<Rightarrow> Position) \<Rightarrow> Diagnostic \<Rightarrow> string" where
  "parseDir_Sprintf fset d =
     (let pos = fset (Pos d)
      in Filename pos @ '':'' @ fmt_d (Line pos) @ '':'' @ fmt_d (Column pos) @ '': '' @
         Message d @ [CHR 0x0A])"

definition parseDir_Report :: "(Pos \<Rightarrow> Position) \<Rightarrow> Diagnostic \<Rightarrow> string list \<Rightarrow> string list" where
  "parseDir_Report fset d results = results @ [parseDir_Sprintf fset d]"

definition parseDir_pass ::
  "(Pos \<Rightarrow> Position) \<Rightarrow> Node list \<Rightarrow> (Node \<Rightarrow> GoType option) \<Rightarrow> (string list) Pass" where
  "parseDir_pass fset syntax typesInfo =
     \<lparr>Files = syntax, TypesInfo = typesInfo, ResultOf = Some (New syntax),
      Report = parseDir_Report fset\<rparr>"

section \<open>The variant analyzer (run, Visit, isBasicType2)\<close>

definition isPointerType_v :: "'r Pass \<Rightarrow> Node \<Rightarrow> bool" where
  "isPointerType_v pass expr =
     (case TypesInfo pass expr of
        None \<Rightarrow> False
      | Some exprType \<Rightarrow> (case exprType of Pointer elem \<Rightarrow> True | _ \<Rightarrow> False))"

definition getUnderlyingType_v :: "'r Pass \<Rightarrow> Node \<Rightarrow> GoType option" where
  "getUnderlyingType_v pass expr =
     (case TypesInfo pass expr of
        None \<Rightarrow> None
      | Some exprType \<Rightarrow> (case exprType of Pointer elem \<Rightarrow> Some elem | _ \<Rightarrow> Some exprType))"

definition isBasicType2 :: "GoType option \<Rightarrow> bool" where
  "isBasicType2 t =
     (case t of
        None \<Rightarrow> False
      | Some ty \<Rightarrow> (case Underlying ty of Basic kind name \<Rightarrow> True | _ \<Rightarrow> False))"

definition Visit :: "(GoType \<Rightarrow> string) \<Rightarrow> 'r Pass \<Rightarrow> Node option \<Rightarrow> 'r \<Rightarrow> 'r" where
  "Visit str pass node r =
     (case node of
        None \<Rightarrow> r
      | Some nd \<Rightarrow>
          (case nd of
             BinaryExpr x opPos op y \<Rightarrow>
               if op \<in> set [EQL, NEQ, LSS, GTR, LEQ, GEQ] then
                 if isPointerType_v pass x \<and> isPointerType_v pass y then
                   let leftType = getUnderlyingType_v pass x;
                       rightType = getUnderlyingType_v pass y
                   in if isBasicType2 leftType \<and> isBasicType2 rightType then
                        Report pass
                          \<lparr>Pos = NodePos nd,
                           Message = Sprintf_message str leftType rightType\<rparr> r
                      else r
                 else r
               else r
           | _ \<Rightarrow> r))"

definition run_v :: "(GoType \<Rightarrow> string) \<Rightarrow> 'r Pass \<Rightarrow> 'r \<Rightarrow> Outcome \<times> 'r" where
  "run_v str pass r =
     (case ResultOf pass of
        None \<Rightarrow> (Panicked, r)
      | Some inspect \<Rightarrow>
          (Returned None None, Preorder inspect [TBinaryExpr] (\<lambda>n. Visit str pass n) r))"

section \<open>The example program (example/main.go)\<close>

text \<open>
  The file of the example: two variables of type \<open>*int\<close>, the comparison \<open>one == two\<close>
  in line 7 and the comparison \<open>*one == *two\<close> in line 11, with the types the type
  checker records for its expressions.
\<close>

definition example_cmp_ptr :: Node where
  "example_cmp_ptr = BinaryExpr (Ident 78 ''one'') 82 EQL (Ident 85 ''two'')"

definition example_cmp_val :: Node where
  "example_cmp_val =
     BinaryExpr (StarExpr 185 (Ident 186 ''one'')) 190 EQL (StarExpr 193 (Ident 194 ''two''))"




definition example_info :: "Node \<Rightarrow> GoType option" where
  "example_info e =
     (if e \<in> set [Ident 50 ''one'', Ident 64 ''two'', Ident 78 ''one'', Ident 85 ''two'',
                  Ident 186 ''one'', Ident 194 ''two'',
                  StarExpr 54 (Ident 55 ''int''), StarExpr 68 (Ident 69 ''int'')]
      then Some (Pointer (Basic Int' ''int''))
      else if e \<in> set [Ident 55 ''int'', Ident 69 ''int'',
                       StarExpr 185 (Ident 186 ''one''), StarExpr 193 (Ident 194 ''two'')]
      then Some (Basic Int' ''int'')
      else if e \<in> set [example_cmp_ptr, example_cmp_val]
      then Some (Basic Bool ''bool'')
      else None)"


text \<open>
  The name of a basic or of a named type, which is how the type library renders the
  types of the examples.
\<close>

definition typeName :: "GoType \<Rightarrow> string" where
  "typeName t = (case t of Basic kind name \<Rightarrow> name | Named name u \<Rightarrow> name | _ \<Rightarrow> [])"

section \<open>A one-line unit: the comparison of two variables\<close>

text \<open>
  The file \<open>pq.go\<close> holds the comparison \<open>p op q\<close> in its first line; the two variables
  have the types \<open>tp\<close> and \<open>tq\<close> (\<open>None\<close> when the type checker has recorded none), and the
  expressions of the example program keep their types.
\<close>

definition cmp_pq :: "Token \<Rightarrow> Node" where
  "cmp_pq op = BinaryExpr (Ident 1 ''p'') 3 op (Ident 6 ''q'')"

definition info_pq :: "GoType option \<Rightarrow> GoType option \<Rightarrow> Node \<Rightarrow> GoType option" where
  "info_pq tp tq e =
     (if e = Ident 1 ''p'' then tp else if e = Ident 6 ''q'' then tq else example_info e)"

definition fset_pq :: "Pos \<Rightarrow> Position" where
  "fset_pq p = \<lparr>Filename = ''pq.go'', Offset = p - 1, Line = 1, Column = p\<rparr>"

definition pass_pq :: "Token \<Rightarrow> GoType option \<Rightarrow> GoType option \<Rightarrow> (string list) Pass" where
  "pass_pq op tp tq = parseDir_pass fset_pq [cmp_pq op] (info_pq tp tq)"

section \<open>The visit of one node and the walk\<close>

lemma run_func1_BinaryExpr:
  "run_func1 str pass (Some (BinaryExpr x opPos op y)) r =
     (if qualifying pass (BinaryExpr x opPos op y)
      then Report pass (diagnosticOf str pass (BinaryExpr x opPos op y)) r else r)"
  by (simp add: run_func1_def qualifying_def diagnosticOf_def Let_def)

lemma run_func1_not_binary:
  "typeOf n \<noteq> TBinaryExpr \<Longrightarrow> run_func1 str pass (Some n) r = r"
  by (cases n) (simp_all add: run_func1_def)

lemma qualifying_binary: "qualifying pass n \<Longrightarrow> typeOf n = TBinaryExpr"
  by (cases n) (simp_all add: qualifying_def)

lemma run_func1_eq:
  "run_func1 str pass (Some n) r =
     (if qualifying pass n then Report pass (diagnosticOf str pass n) r else r)"
proof (cases "typeOf n = TBinaryExpr")
  case True
  then obtain x opPos op y where "n = BinaryExpr x opPos op y"
    by (cases n) simp_all
  then show ?thesis by (simp only: run_func1_BinaryExpr)
next
  case False
  then show ?thesis using qualifying_binary [of pass n]
    by (auto simp: run_func1_not_binary)
qed

lemma Preorder_Nil: "Preorder (Inspector []) types f r = r"
  by (simp add: Preorder_def)

lemma Preorder_append:
  "Preorder (Inspector (xs @ ys)) types f r =
     Preorder (Inspector ys) types f (Preorder (Inspector xs) types f r)"
  by (simp add: Preorder_def)

lemma Preorder_Cons:
  "Preorder (Inspector (n # ns)) types f r =
     Preorder (Inspector ns) types f (if typeOf n \<in> set types then f (Some n) r else r)"
  by (simp add: Preorder_def)

lemma scan_fold:
  "Preorder (Inspector ns) [TBinaryExpr] (run_func1 str pass) r =
     fold (Report pass) (map (diagnosticOf str pass) (filter (qualifying pass) ns)) r"
proof (induction ns arbitrary: r)
  case Nil
  show ?case by (simp add: Preorder_Nil)
next
  case (Cons n ns)
  show ?case
    using qualifying_binary [of pass n]
    by (auto simp: Preorder_Cons Cons.IH run_func1_eq)
qed

lemma isPointerType_iff:
  "isPointerType pass e \<longleftrightarrow> (\<exists>t. TypesInfo pass e = Some (Pointer t))"
  by (auto simp: isPointerType_def split: option.splits GoType.splits)

lemma getUnderlyingType_Pointer:
  "TypesInfo pass e = Some (Pointer t) \<Longrightarrow> getUnderlyingType pass e = Some t"
  by (simp add: getUnderlyingType_def)

lemma isBasicType_Some:
  "isBasicType (Some t) \<longleftrightarrow> (\<exists>kind name. Underlying t = Basic kind name)"
  by (auto simp: isBasicType_def split: GoType.splits)

lemma run_at:
  assumes "ResultOf pass = Some (Inspector (pre @ BinaryExpr x opPos op y # post))"
  shows "snd (run str pass r) =
     Preorder (Inspector post) [TBinaryExpr] (run_func1 str pass)
       (run_func1 str pass (Some (BinaryExpr x opPos op y))
          (Preorder (Inspector pre) [TBinaryExpr] (run_func1 str pass) r))"
  using assms by (simp add: run_def Preorder_append Preorder_Cons)

lemma ResultOf_pass_pq:
  "ResultOf (pass_pq op tp tq) =
     Some (Inspector ([] @ BinaryExpr (Ident 1 ''p'') 3 op (Ident 6 ''q'') #
                      [Ident 1 ''p'', Ident 6 ''q'']))"
  by (simp add: pass_pq_def parseDir_pass_def New_def cmp_pq_def)

lemma TypesInfo_pass_pq:
  "TypesInfo (pass_pq op tp tq) (Ident 1 ''p'') = tp"
  "TypesInfo (pass_pq op tp tq) (Ident 6 ''q'') = tq"
  by (simp_all add: pass_pq_def parseDir_pass_def info_pq_def)

lemma Report_pass_pq:
  "Report (pass_pq op tp tq) d results = results @ [parseDir_Sprintf fset_pq d]"
  by (simp add: pass_pq_def parseDir_pass_def parseDir_Report_def)

lemma Preorder_leaves:
  "Preorder (Inspector [Ident 1 ''p'', Ident 6 ''q'']) [TBinaryExpr] f r = r"
  by (simp add: Preorder_def)

lemma pq_line:
  "Preorder (Inspector [Ident 1 ''p'', Ident 6 ''q'']) [TBinaryExpr] f
     (Report (pass_pq op tp tq)
        \<lparr>Pos = NodePos (BinaryExpr (Ident 1 ''p'') 3 op (Ident 6 ''q'')), Message = m\<rparr>
        (Preorder (Inspector []) [TBinaryExpr] f [])) =
   [''pq.go:1:1: '' @ m @ [CHR 0x0A]]"
  by (simp add: Preorder_leaves Preorder_Nil Report_pass_pq parseDir_Sprintf_def
      fset_pq_def fmt_d_def digits.simps)

lemma isPointerType_v_eq: "isPointerType_v pass e = isPointerType pass e"
  by (simp add: isPointerType_v_def isPointerType_def)

lemma getUnderlyingType_v_eq: "getUnderlyingType_v pass e = getUnderlyingType pass e"
  by (simp add: getUnderlyingType_v_def getUnderlyingType_def)

lemma isBasicType2_eq: "isBasicType2 t = isBasicType t"
  by (simp add: isBasicType2_def isBasicType_def)

lemma Visit_eq: "Visit str pass n r = run_func1 str pass n r"
proof (cases n)
  case None
  then show ?thesis by (simp add: Visit_def run_func1_def)
next
  case (Some nd)
  then show ?thesis
    by (cases nd)
      (simp_all add: Visit_def run_func1_def isPointerType_v_eq getUnderlyingType_v_eq
        isBasicType2_eq)
qed

lemma fold_parseDir_Report:
  "fold (parseDir_Report fset) ds results = results @ map (parseDir_Sprintf fset) ds"
  by (induction ds arbitrary: results) (simp_all add: parseDir_Report_def)

lemma Pos_diagnosticOf: "Pos (diagnosticOf str pass n) = NodePos n"
  by (cases n) (simp_all add: diagnosticOf_def)




section \<open>What the scan reports\<close>



text \<open>
  C2. A comparison with one of the six operators in which the type of at least one
  operand is not a pointer type adds nothing: the scan reports what the nodes before it
  and the nodes after it give, and nothing for the comparison itself.
\<close>

theorem run_skips_non_pointer_operand:
  assumes "ResultOf pass = Some (Inspector (pre @ BinaryExpr x opPos op y # post))"
    and "op \<in> {EQL, NEQ, LSS, GTR, LEQ, GEQ}"
    and "(\<forall>t. TypesInfo pass x \<noteq> Some (Pointer t)) \<or> (\<forall>t. TypesInfo pass y \<noteq> Some (Pointer t))"
  shows "snd (run str pass r) =
     Preorder (Inspector post) [TBinaryExpr] (run_func1 str pass)
       (Preorder (Inspector pre) [TBinaryExpr] (run_func1 str pass) r)"
proof -
  have "\<not> qualifying pass (BinaryExpr x opPos op y)"
    using assms(3) by (auto simp: qualifying_def isPointerType_iff)
  then have "run_func1 str pass (Some (BinaryExpr x opPos op y)) s = s" for s
    by (simp only: run_func1_BinaryExpr if_False)
  then show ?thesis using run_at [OF assms(1)] by simp
qed

text \<open>
  \<open>p != nil\<close> with \<open>p\<close> of type \<open>*int\<close>: no diagnostic.
\<close>

theorem run_skips_non_pointer_operand_witness:
  "NEQ \<in> {EQL, NEQ, LSS, GTR, LEQ, GEQ}
   \<and> info_pq (Some (Pointer (Basic Int' ''int''))) (Some (Basic UntypedNil ''untyped nil''))
        (Ident 6 ''q'') = Some (Basic UntypedNil ''untyped nil'')
   \<and> snd (run typeName
       (pass_pq NEQ (Some (Pointer (Basic Int' ''int''))) (Some (Basic UntypedNil ''untyped nil'')))
       []) = []"
proof -
  let ?tp = "Some (Pointer (Basic Int' ''int''))"
  let ?tq = "Some (Basic UntypedNil ''untyped nil'')"
  have h2: "NEQ \<in> {EQL, NEQ, LSS, GTR, LEQ, GEQ}" by simp
  have "\<forall>t. TypesInfo (pass_pq NEQ ?tp ?tq) (Ident 6 ''q'') \<noteq> Some (Pointer t)"
    by (simp add: TypesInfo_pass_pq)
  then have h3: "(\<forall>t. TypesInfo (pass_pq NEQ ?tp ?tq) (Ident 1 ''p'') \<noteq> Some (Pointer t))
      \<or> (\<forall>t. TypesInfo (pass_pq NEQ ?tp ?tq) (Ident 6 ''q'') \<noteq> Some (Pointer t))"
    by blast
  have "snd (run typeName (pass_pq NEQ ?tp ?tq) []) = []"
    using run_skips_non_pointer_operand
      [OF ResultOf_pass_pq h2 h3, where str = typeName and r = "[]"]
    by (simp add: Preorder_leaves Preorder_Nil)
  with h2 show ?thesis by (simp add: info_pq_def)
qed

text \<open>
  A comparison of two pointers in which the underlying type of a pointee is not a
  \<open>*types.Basic\<close> adds nothing to what the scan reports. Structs, arrays, slices, maps,
  interfaces, functions and channels are not basic, and neither is a type that is
  missing (\<open>nil\<close>).
\<close>

lemma composite_pointee_not_reported:
  assumes "ResultOf pass = Some (Inspector (pre @ BinaryExpr x opPos op y # post))"
    and "op \<in> {EQL, NEQ, LSS, GTR, LEQ, GEQ}"
    and "TypesInfo pass x = Some (Pointer lt)"
    and "TypesInfo pass y = Some (Pointer rt)"
    and "(\<forall>kind name. Underlying lt \<noteq> Basic kind name) \<or>
         (\<forall>kind name. Underlying rt \<noteq> Basic kind name)"
  shows "snd (run str pass r) =
       Preorder (Inspector post) [TBinaryExpr] (run_func1 str pass)
         (Preorder (Inspector pre) [TBinaryExpr] (run_func1 str pass) r)
     \<and> \<not> isBasicType (Some (Struct flds))
     \<and> \<not> isBasicType (Some (Array len elem))
     \<and> \<not> isBasicType (Some (Slice elem))
     \<and> \<not> isBasicType (Some (Map key elem))
     \<and> \<not> isBasicType (Some (Interface methods embeddeds))
     \<and> \<not> isBasicType (Some (Signature params results))
     \<and> \<not> isBasicType (Some (Chan dir elem))
     \<and> \<not> isBasicType None"
proof -
  have "\<not> qualifying pass (BinaryExpr x opPos op y)"
    using assms(3,4,5)
    by (auto simp: qualifying_def getUnderlyingType_Pointer isBasicType_Some)
  then have "run_func1 str pass (Some (BinaryExpr x opPos op y)) s = s" for s
    by (simp only: run_func1_BinaryExpr if_False)
  then have "snd (run str pass r) =
     Preorder (Inspector post) [TBinaryExpr] (run_func1 str pass)
       (Preorder (Inspector pre) [TBinaryExpr] (run_func1 str pass) r)"
    using run_at [OF assms(1)] by simp
  then show ?thesis by (simp add: isBasicType_def)
qed

text \<open>
  A pointer to a string compared with a pointer to a named struct: no diagnostic.
\<close>

lemma composite_pointee_example:
  "EQL \<in> {EQL, NEQ, LSS, GTR, LEQ, GEQ}
   \<and> Underlying (Named ''pkg.T'' (Struct [(''f'', Basic Int' ''int'')])) =
       Struct [(''f'', Basic Int' ''int'')]
   \<and> snd (run typeName
       (pass_pq EQL (Some (Pointer (Basic String ''string'')))
          (Some (Pointer (Named ''pkg.T'' (Struct [(''f'', Basic Int' ''int'')]))))) []) = []"
proof -
  let ?lt = "Basic String ''string''"
  let ?rt = "Named ''pkg.T'' (Struct [(''f'', Basic Int' ''int'')])"
  have h2: "EQL \<in> {EQL, NEQ, LSS, GTR, LEQ, GEQ}" by simp
  have u: "Underlying ?rt = Struct [(''f'', Basic Int' ''int'')]" by simp
  then have h5: "(\<forall>kind name. Underlying ?lt \<noteq> Basic kind name) \<or>
      (\<forall>kind name. Underlying ?rt \<noteq> Basic kind name)"
    by simp
  have "snd (run typeName (pass_pq EQL (Some (Pointer ?lt)) (Some (Pointer ?rt))) []) = []"
    using composite_pointee_not_reported
      [OF ResultOf_pass_pq h2 TypesInfo_pass_pq(1) TypesInfo_pass_pq(2) h5,
       where str = typeName and r = "[]"]
    by (simp add: Preorder_leaves Preorder_Nil)
  with h2 u show ?thesis by simp
qed

text \<open>
  C3. A comparison of two pointers of which a pointee is composite or unknown is not
  to be reported. For a composite pointee the scan does so, as shown above. It does not
  for a pointee whose type failed to resolve: in \<open>type T undefined; var p, q *T\<close> the
  type checker gives \<open>T\<close> the invalid type as its underlying type, which is a
  \<open>*types.Basic\<close>, so \<open>isBasicType\<close> answers true for the pointee and the scan reports
  \<open>p == q\<close> as a comparison of pointers to basic types.
\<close>

theorem run_reports_unresolved_pointee:
  "Underlying (Named ''pkg.T'' (Basic Invalid ''invalid type'')) = Basic Invalid ''invalid type''
   \<and> isBasicType (Some (Named ''pkg.T'' (Basic Invalid ''invalid type''))) = True
   \<and> snd (run typeName
         (pass_pq EQL (Some (Pointer (Named ''pkg.T'' (Basic Invalid ''invalid type''))))
            (Some (Pointer (Named ''pkg.T'' (Basic Invalid ''invalid type''))))) []) =
       [''pq.go:1:1: comparing pointers to basic types: pkg.T and pkg.T'' @ [CHR 0x0A]]"
proof -
  let ?T = "Named ''pkg.T'' (Basic Invalid ''invalid type'')"
  let ?pass = "pass_pq EQL (Some (Pointer ?T)) (Some (Pointer ?T))"
  have u: "Underlying ?T = Basic Invalid ''invalid type''" by simp
  have b: "isBasicType (Some ?T)" by (simp add: isBasicType_def)
  have ptr: "isPointerType ?pass (Ident 1 ''p'')" "isPointerType ?pass (Ident 6 ''q'')"
    by (simp_all add: isPointerType_def TypesInfo_pass_pq)
  have elem: "getUnderlyingType ?pass (Ident 1 ''p'') = Some ?T"
    "getUnderlyingType ?pass (Ident 6 ''q'') = Some ?T"
    by (simp_all add: getUnderlyingType_def TypesInfo_pass_pq)
  have q: "qualifying ?pass (BinaryExpr (Ident 1 ''p'') 3 EQL (Ident 6 ''q''))"
    using ptr b by (simp add: qualifying_def elem)
  have d: "diagnosticOf typeName ?pass (BinaryExpr (Ident 1 ''p'') 3 EQL (Ident 6 ''q'')) =
      \<lparr>Pos = NodePos (BinaryExpr (Ident 1 ''p'') 3 EQL (Ident 6 ''q'')),
       Message = ''comparing pointers to basic types: pkg.T and pkg.T''\<rparr>"
    by (simp add: diagnosticOf_def elem Sprintf_message_def fmt_v_def typeName_def)
  have "snd (run typeName ?pass []) =
      Preorder (Inspector [Ident 1 ''p'', Ident 6 ''q'']) [TBinaryExpr] (run_func1 typeName ?pass)
        (Report ?pass
           \<lparr>Pos = NodePos (BinaryExpr (Ident 1 ''p'') 3 EQL (Ident 6 ''q'')),
            Message = ''comparing pointers to basic types: pkg.T and pkg.T''\<rparr>
           (Preorder (Inspector []) [TBinaryExpr] (run_func1 typeName ?pass) []))"
    using run_at [OF ResultOf_pass_pq, where str = typeName and r = "[]"] q d
    by (simp only: run_func1_BinaryExpr if_True)
  then have "snd (run typeName ?pass []) =
      [''pq.go:1:1: '' @ ''comparing pointers to basic types: pkg.T and pkg.T'' @ [CHR 0x0A]]"
    by (simp only: pq_line)
  with u b show ?thesis by simp
qed

text \<open>
  C4. When both operands of a comparison have a pointer-to-pointer type \<open>**T\<close>, the
  pointee (a pointer) is not basic, and the scan reports nothing for the comparison.
\<close>

theorem run_skips_pointer_to_pointer:
  assumes "ResultOf pass = Some (Inspector (pre @ BinaryExpr x opPos op y # post))"
    and "op \<in> {EQL, NEQ, LSS, GTR, LEQ, GEQ}"
    and "TypesInfo pass x = Some (Pointer (Pointer t))"
    and "TypesInfo pass y = Some (Pointer (Pointer u))"
  shows "\<not> isBasicType (getUnderlyingType pass x)
     \<and> \<not> isBasicType (getUnderlyingType pass y)
     \<and> snd (run str pass r) =
       Preorder (Inspector post) [TBinaryExpr] (run_func1 str pass)
         (Preorder (Inspector pre) [TBinaryExpr] (run_func1 str pass) r)"
proof -
  have nb: "\<not> isBasicType (getUnderlyingType pass x)" "\<not> isBasicType (getUnderlyingType pass y)"
    using assms(3,4) by (simp_all add: getUnderlyingType_Pointer isBasicType_Some)
  then have "\<not> qualifying pass (BinaryExpr x opPos op y)"
    by (simp add: qualifying_def)
  then have "run_func1 str pass (Some (BinaryExpr x opPos op y)) s = s" for s
    by (simp only: run_func1_BinaryExpr if_False)
  then have "snd (run str pass r) =
     Preorder (Inspector post) [TBinaryExpr] (run_func1 str pass)
       (Preorder (Inspector pre) [TBinaryExpr] (run_func1 str pass) r)"
    using run_at [OF assms(1)] by simp
  with nb show ?thesis by simp
qed

text \<open>
  Two operands of type \<open>**int\<close>: no diagnostic.
\<close>

theorem run_skips_pointer_to_pointer_witness:
  "EQL \<in> {EQL, NEQ, LSS, GTR, LEQ, GEQ}
   \<and> isBasicType (Some (Pointer (Basic Int' ''int''))) = False
   \<and> snd (run typeName
       (pass_pq EQL (Some (Pointer (Pointer (Basic Int' ''int''))))
          (Some (Pointer (Pointer (Basic Int' ''int''))))) []) = []"
proof -
  let ?pp = "Some (Pointer (Pointer (Basic Int' ''int'')))"
  have h2: "EQL \<in> {EQL, NEQ, LSS, GTR, LEQ, GEQ}" by simp
  have "\<not> isBasicType (getUnderlyingType (pass_pq EQL ?pp ?pp) (Ident 1 ''p''))
     \<and> snd (run typeName (pass_pq EQL ?pp ?pp) []) = []"
    using run_skips_pointer_to_pointer
      [OF ResultOf_pass_pq h2 TypesInfo_pass_pq(1) TypesInfo_pass_pq(2),
       where str = typeName and r = "[]"]
    by (simp add: Preorder_leaves Preorder_Nil)
  with h2 show ?thesis
    by (simp add: getUnderlyingType_Pointer [OF TypesInfo_pass_pq(1)])
qed



text \<open>
  C6. A binary expression with an operator other than the six comparison operators
  adds nothing to what the scan reports, whatever the types of its operands; with any
  of the six operators, a pair of pointers to basic types is reported.
\<close>

theorem only_comparison_operators_report:
  assumes "ResultOf pass = Some (Inspector (pre @ BinaryExpr x opPos op y # post))"
  shows "(op \<notin> {EQL, NEQ, LSS, GTR, LEQ, GEQ} \<longrightarrow>
        snd (run str pass r) =
          Preorder (Inspector post) [TBinaryExpr] (run_func1 str pass)
            (Preorder (Inspector pre) [TBinaryExpr] (run_func1 str pass) r))
     \<and> (op \<in> {EQL, NEQ, LSS, GTR, LEQ, GEQ} \<and>
        TypesInfo pass x = Some (Pointer lt) \<and> TypesInfo pass y = Some (Pointer rt) \<and>
        Underlying lt = Basic lkind lname \<and> Underlying rt = Basic rkind rname \<longrightarrow>
        snd (run str pass r) =
          Preorder (Inspector post) [TBinaryExpr] (run_func1 str pass)
            (Report pass
               \<lparr>Pos = NodePos (BinaryExpr x opPos op y),
                Message = ''comparing pointers to basic types: '' @ str lt @ '' and '' @ str rt\<rparr>
               (Preorder (Inspector pre) [TBinaryExpr] (run_func1 str pass) r)))"
proof (intro conjI impI)
  let ?e = "BinaryExpr x opPos op y"
  assume "op \<notin> {EQL, NEQ, LSS, GTR, LEQ, GEQ}"
  then have "\<not> qualifying pass ?e" by (simp add: qualifying_def)
  then have "run_func1 str pass (Some ?e) s = s" for s
    by (simp only: run_func1_BinaryExpr if_False)
  then show "snd (run str pass r) =
      Preorder (Inspector post) [TBinaryExpr] (run_func1 str pass)
        (Preorder (Inspector pre) [TBinaryExpr] (run_func1 str pass) r)"
    using run_at [OF assms] by simp
next
  let ?e = "BinaryExpr x opPos op y"
  assume a: "op \<in> {EQL, NEQ, LSS, GTR, LEQ, GEQ} \<and>
        TypesInfo pass x = Some (Pointer lt) \<and> TypesInfo pass y = Some (Pointer rt) \<and>
        Underlying lt = Basic lkind lname \<and> Underlying rt = Basic rkind rname"
  then have elem: "getUnderlyingType pass x = Some lt" "getUnderlyingType pass y = Some rt"
    by (simp_all add: getUnderlyingType_Pointer)
  have "qualifying pass ?e"
    using a by (auto simp: qualifying_def elem isPointerType_iff isBasicType_Some)
  then have "run_func1 str pass (Some ?e) s = Report pass (diagnosticOf str pass ?e) s" for s
    by (simp only: run_func1_BinaryExpr if_True)
  moreover have "diagnosticOf str pass ?e =
      \<lparr>Pos = NodePos ?e,
       Message = ''comparing pointers to basic types: '' @ str lt @ '' and '' @ str rt\<rparr>"
    by (simp add: diagnosticOf_def elem Sprintf_message_def fmt_v_def)
  ultimately show "snd (run str pass r) =
      Preorder (Inspector post) [TBinaryExpr] (run_func1 str pass)
        (Report pass
           \<lparr>Pos = NodePos ?e,
            Message = ''comparing pointers to basic types: '' @ str lt @ '' and '' @ str rt\<rparr>
           (Preorder (Inspector pre) [TBinaryExpr] (run_func1 str pass) r))"
    using run_at [OF assms, of str r] by simp
qed

text \<open>
  Two operands of type \<open>*float64\<close>: each of the six comparison operators gives the
  diagnostic, and \<open>+\<close>, \<open>-\<close>, \<open>&&\<close>, \<open>||\<close>, \<open>&\<close> and \<open><<\<close> give none.
\<close>

theorem only_comparison_operators_report_witness:
  "snd (run typeName (pass_pq EQL (Some (Pointer (Basic Float64 ''float64''))) (Some (Pointer (Basic Float64 ''float64'')))) []) =
       [''pq.go:1:1: comparing pointers to basic types: float64 and float64'' @ [CHR 0x0A]]
   \<and> snd (run typeName (pass_pq NEQ (Some (Pointer (Basic Float64 ''float64''))) (Some (Pointer (Basic Float64 ''float64'')))) []) =
       [''pq.go:1:1: comparing pointers to basic types: float64 and float64'' @ [CHR 0x0A]]
   \<and> snd (run typeName (pass_pq LSS (Some (Pointer (Basic Float64 ''float64''))) (Some (Pointer (Basic Float64 ''float64'')))) []) =
       [''pq.go:1:1: comparing pointers to basic types: float64 and float64'' @ [CHR 0x0A]]
   \<and> snd (run typeName (pass_pq GTR (Some (Pointer (Basic Float64 ''float64''))) (Some (Pointer (Basic Float64 ''float64'')))) []) =
       [''pq.go:1:1: comparing pointers to basic types: float64 and float64'' @ [CHR 0x0A]]
   \<and> snd (run typeName (pass_pq LEQ (Some (Pointer (Basic Float64 ''float64''))) (Some (Pointer (Basic Float64 ''float64'')))) []) =
       [''pq.go:1:1: comparing pointers to basic types: float64 and float64'' @ [CHR 0x0A]]
   \<and> snd (run typeName (pass_pq GEQ (Some (Pointer (Basic Float64 ''float64''))) (Some (Pointer (Basic Float64 ''float64'')))) []) =
       [''pq.go:1:1: comparing pointers to basic types: float64 and float64'' @ [CHR 0x0A]]
   \<and> snd (run typeName (pass_pq ADD (Some (Pointer (Basic Float64 ''float64''))) (Some (Pointer (Basic Float64 ''float64'')))) []) = []
   \<and> snd (run typeName (pass_pq SUB (Some (Pointer (Basic Float64 ''float64''))) (Some (Pointer (Basic Float64 ''float64'')))) []) = []
   \<and> snd (run typeName (pass_pq LAND (Some (Pointer (Basic Float64 ''float64''))) (Some (Pointer (Basic Float64 ''float64'')))) []) = []
   \<and> snd (run typeName (pass_pq LOR (Some (Pointer (Basic Float64 ''float64''))) (Some (Pointer (Basic Float64 ''float64'')))) []) = []
   \<and> snd (run typeName (pass_pq AND (Some (Pointer (Basic Float64 ''float64''))) (Some (Pointer (Basic Float64 ''float64'')))) []) = []
   \<and> snd (run typeName (pass_pq SHL (Some (Pointer (Basic Float64 ''float64''))) (Some (Pointer (Basic Float64 ''float64'')))) []) = []"
proof -
  let ?t = "Some (Pointer (Basic Float64 ''float64''))"
  have u: "Underlying (Basic Float64 ''float64'') = Basic Float64 ''float64''" by simp
  have yes: "snd (run typeName (pass_pq op ?t ?t) []) =
      [''pq.go:1:1: comparing pointers to basic types: float64 and float64'' @ [CHR 0x0A]]"
    if "op \<in> {EQL, NEQ, LSS, GTR, LEQ, GEQ}" for op
    using only_comparison_operators_report
      [OF ResultOf_pass_pq, where str = typeName and r = "[]" and op = op
        and lt = "Basic Float64 ''float64''" and rt = "Basic Float64 ''float64''"
        and lkind = Float64 and rkind = Float64 and lname = "''float64''" and rname = "''float64''"]
      that
    by (simp only: TypesInfo_pass_pq u pq_line simp_thms typeName_def GoType.case append.simps)
  have no: "snd (run typeName (pass_pq op ?t ?t) []) = []"
    if "op \<notin> {EQL, NEQ, LSS, GTR, LEQ, GEQ}" for op
    using only_comparison_operators_report
      [OF ResultOf_pass_pq, where str = typeName and r = "[]" and op = op] that
    by (simp add: Preorder_leaves Preorder_Nil)
  show ?thesis
    using yes no by simp
qed

text \<open>
  C7. With the inspector's result present in the pass (which \<open>parseDir\<close> and the
  analysis framework guarantee), \<open>run\<close> returns \<open>(nil, nil)\<close>: no error and no panic. An
  expression without a recorded type is not a pointer and not basic, and a comparison
  with such an operand adds nothing to what the scan reports, while the nodes before
  and after it are visited as usual.
\<close>

theorem run_never_fails_unresolved_type:
  "(ResultOf pass = Some inspect \<longrightarrow> fst (run str pass r) = Returned None None)
   \<and> (TypesInfo pass e = None \<longrightarrow>
        isPointerType pass e = False \<and> getUnderlyingType pass e = None \<and>
        isBasicType (getUnderlyingType pass e) = False)
   \<and> (ResultOf pass = Some (Inspector (pre @ BinaryExpr x opPos op y # post)) \<and>
      (TypesInfo pass x = None \<or> TypesInfo pass y = None) \<longrightarrow>
        run str pass r =
          (Returned None None,
           Preorder (Inspector post) [TBinaryExpr] (run_func1 str pass)
             (Preorder (Inspector pre) [TBinaryExpr] (run_func1 str pass) r)))"
proof (intro conjI impI)
  assume "ResultOf pass = Some inspect"
  then show "fst (run str pass r) = Returned None None" by (simp add: run_def)
next
  assume "TypesInfo pass e = None"
  then show "isPointerType pass e = False" "getUnderlyingType pass e = None"
    "isBasicType (getUnderlyingType pass e) = False"
    by (simp_all add: isPointerType_def getUnderlyingType_def isBasicType_def)
next
  assume a: "ResultOf pass = Some (Inspector (pre @ BinaryExpr x opPos op y # post)) \<and>
      (TypesInfo pass x = None \<or> TypesInfo pass y = None)"
  then have "\<not> qualifying pass (BinaryExpr x opPos op y)"
    by (auto simp: qualifying_def isPointerType_def)
  then have "run_func1 str pass (Some (BinaryExpr x opPos op y)) s = s" for s
    by (simp only: run_func1_BinaryExpr if_False)
  moreover have "fst (run str pass r) = Returned None None"
    using a by (simp add: run_def)
  ultimately show "run str pass r =
      (Returned None None,
       Preorder (Inspector post) [TBinaryExpr] (run_func1 str pass)
         (Preorder (Inspector pre) [TBinaryExpr] (run_func1 str pass) r))"
    using a run_at [of pass pre x opPos op y post str r]
    by (simp add: prod_eq_iff)
qed

text \<open>
  A unit with \<open>p == q\<close>, where \<open>p\<close> has no recorded type, followed by \<open>one == two\<close> of
  the example: the scan returns without an error and reports the second comparison
  only.
\<close>

theorem run_never_fails_unresolved_type_witness:
  "info_pq None (Some (Pointer (Basic Int' ''int''))) (Ident 1 ''p'') = None
   \<and> run typeName
       (parseDir_pass fset_pq [Other 1 [cmp_pq EQL, example_cmp_ptr]]
          (info_pq None (Some (Pointer (Basic Int' ''int'')))))
       [] =
     (Returned None None,
      [''pq.go:1:78: comparing pointers to basic types: int and int'' @ [CHR 0x0A]])"
proof -
  let ?info = "info_pq None (Some (Pointer (Basic Int' ''int'')))"
  let ?pass = "parseDir_pass fset_pq [Other 1 [cmp_pq EQL, example_cmp_ptr]] ?info"
  let ?post = "[Ident 1 ''p'', Ident 6 ''q'', example_cmp_ptr, Ident 78 ''one'', Ident 85 ''two'']"
  have h1: "ResultOf ?pass =
      Some (Inspector ([Other 1 [cmp_pq EQL, example_cmp_ptr]] @
              BinaryExpr (Ident 1 ''p'') 3 EQL (Ident 6 ''q'') # ?post))"
    by (simp add: parseDir_pass_def New_def cmp_pq_def example_cmp_ptr_def)
  have h2: "TypesInfo ?pass (Ident 1 ''p'') = None"
    by (simp add: parseDir_pass_def info_pq_def)
  have "ResultOf ?pass =
        Some (Inspector ([Other 1 [cmp_pq EQL, example_cmp_ptr]] @
                BinaryExpr (Ident 1 ''p'') 3 EQL (Ident 6 ''q'') # ?post)) \<and>
      (TypesInfo ?pass (Ident 1 ''p'') = None \<or> TypesInfo ?pass (Ident 6 ''q'') = None) \<longrightarrow>
      run typeName ?pass [] =
        (Returned None None,
         Preorder (Inspector ?post) [TBinaryExpr] (run_func1 typeName ?pass)
           (Preorder (Inspector [Other 1 [cmp_pq EQL, example_cmp_ptr]]) [TBinaryExpr]
              (run_func1 typeName ?pass) []))"
    using run_never_fails_unresolved_type
      [where pass = ?pass and str = typeName and r = "[]"
         and pre = "[Other 1 [cmp_pq EQL, example_cmp_ptr]]" and x = "Ident 1 ''p''"
         and opPos = 3 and op = EQL and y = "Ident 6 ''q''" and post = ?post]
    by (rule conjunct2 [OF conjunct2])
  with h1 h2 have "run typeName ?pass [] =
        (Returned None None,
         Preorder (Inspector ?post) [TBinaryExpr] (run_func1 typeName ?pass)
           (Preorder (Inspector [Other 1 [cmp_pq EQL, example_cmp_ptr]]) [TBinaryExpr]
              (run_func1 typeName ?pass) []))"
    by blast
  moreover have "Preorder (Inspector ?post) [TBinaryExpr] (run_func1 typeName ?pass)
           (Preorder (Inspector [Other 1 [cmp_pq EQL, example_cmp_ptr]]) [TBinaryExpr]
              (run_func1 typeName ?pass) []) =
      [''pq.go:1:78: comparing pointers to basic types: int and int'' @ [CHR 0x0A]]"
    by (simp add: Preorder_def run_func1_def example_cmp_ptr_def isPointerType_def
        getUnderlyingType_def isBasicType_def parseDir_pass_def info_pq_def example_info_def
        parseDir_Report_def parseDir_Sprintf_def fset_pq_def fmt_d_def digits.simps
        Sprintf_message_def fmt_v_def typeName_def)
  ultimately show ?thesis by (simp add: info_pq_def)
qed

text \<open>
  C8. The scan reports the diagnostics of the qualifying comparisons in the order in
  which the depth-first, pre-order walk of the files reaches them, each at the position
  of its comparison. With the pass of \<open>parseDir\<close>, the results are the earlier results
  followed by one line for each of these diagnostics in that order, and at every point
  of the walk the results so far are a prefix of the final results: the list only grows.
\<close>

theorem run_reports_in_walk_order:
  "(ResultOf pass = Some inspect \<longrightarrow>
      snd (run str pass r) =
        fold (Report pass)
          (map (diagnosticOf str pass) (filter (qualifying pass) (events inspect))) r)
   \<and> run str (parseDir_pass fset files info) results =
       (Returned None None,
        results @
        map (\<lambda>n. parseDir_Sprintf fset (diagnosticOf str (parseDir_pass fset files info) n))
          (filter (qualifying (parseDir_pass fset files info)) (concat (map preorder files))))
   \<and> (concat (map preorder files) = pre @ post \<longrightarrow>
        snd (run str (parseDir_pass fset files info) results) =
          Preorder (Inspector pre) [TBinaryExpr]
            (run_func1 str (parseDir_pass fset files info)) results @
          map (\<lambda>n. parseDir_Sprintf fset (diagnosticOf str (parseDir_pass fset files info) n))
            (filter (qualifying (parseDir_pass fset files info)) post))
   \<and> Pos (diagnosticOf str pass n) = NodePos n"
proof (intro conjI impI)
  assume "ResultOf pass = Some inspect"
  then have "snd (run str pass r) =
      Preorder (Inspector (events inspect)) [TBinaryExpr] (run_func1 str pass) r"
    by (simp add: run_def)
  then show "snd (run str pass r) =
      fold (Report pass)
        (map (diagnosticOf str pass) (filter (qualifying pass) (events inspect))) r"
    by (simp only: scan_fold)
next
  let ?pass = "parseDir_pass fset files info"
  have walk: "Preorder (Inspector ns) [TBinaryExpr] (run_func1 str ?pass) rs =
      rs @ map (\<lambda>n. parseDir_Sprintf fset (diagnosticOf str ?pass n))
             (filter (qualifying ?pass) ns)" for ns rs
  proof -
    have "Report ?pass = parseDir_Report fset" by (simp add: parseDir_pass_def)
    then show ?thesis
      by (simp add: scan_fold fold_parseDir_Report comp_def)
  qed
  have r: "run str ?pass results =
      (Returned None None,
       Preorder (Inspector (concat (map preorder files))) [TBinaryExpr]
         (run_func1 str ?pass) results)"
    by (simp add: run_def parseDir_pass_def New_def)
  show "run str ?pass results =
      (Returned None None,
       results @ map (\<lambda>n. parseDir_Sprintf fset (diagnosticOf str ?pass n))
         (filter (qualifying ?pass) (concat (map preorder files))))"
    by (simp only: r walk)
  show "snd (run str ?pass results) =
      Preorder (Inspector pre) [TBinaryExpr] (run_func1 str ?pass) results @
      map (\<lambda>n. parseDir_Sprintf fset (diagnosticOf str ?pass n))
        (filter (qualifying ?pass) post)"
    if "concat (map preorder files) = pre @ post"
    using that by (simp add: r walk)
next
  show "Pos (diagnosticOf str pass n) = NodePos n" by (rule Pos_diagnosticOf)
qed

text \<open>
  A unit with \<open>p != q\<close> on two pointers to strings, then \<open>one == two\<close> and
  \<open>*one == *two\<close> of the example: two lines, in source order, after the earlier one.
\<close>

theorem run_reports_in_walk_order_witness:
  "run typeName
     (parseDir_pass fset_pq [Other 1 [cmp_pq NEQ, example_cmp_ptr, example_cmp_val]]
        (info_pq (Some (Pointer (Basic String ''string'')))
           (Some (Pointer (Basic String ''string'')))))
     [''earlier''] =
   (Returned None None,
    [''earlier'',
     ''pq.go:1:1: comparing pointers to basic types: string and string'' @ [CHR 0x0A],
     ''pq.go:1:78: comparing pointers to basic types: int and int'' @ [CHR 0x0A]])"
proof -
  let ?info = "info_pq (Some (Pointer (Basic String ''string'')))
      (Some (Pointer (Basic String ''string'')))"
  let ?files = "[Other 1 [cmp_pq NEQ, example_cmp_ptr, example_cmp_val]]"
  let ?pass = "parseDir_pass fset_pq ?files ?info"
  have ev: "concat (map preorder ?files) =
      [Other 1 [cmp_pq NEQ, example_cmp_ptr, example_cmp_val],
       cmp_pq NEQ, Ident 1 ''p'', Ident 6 ''q'',
       example_cmp_ptr, Ident 78 ''one'', Ident 85 ''two'',
       example_cmp_val, StarExpr 185 (Ident 186 ''one''), Ident 186 ''one'',
       StarExpr 193 (Ident 194 ''two''), Ident 194 ''two'']"
    by (simp add: cmp_pq_def example_cmp_val_def example_cmp_ptr_def)
  have q1: "qualifying ?pass (cmp_pq NEQ)"
    by (simp add: qualifying_def cmp_pq_def isPointerType_def getUnderlyingType_def
        isBasicType_def parseDir_pass_def info_pq_def)
  have q2: "\<not> qualifying ?pass example_cmp_val"
    by (simp add: qualifying_def example_cmp_val_def isPointerType_def
        parseDir_pass_def info_pq_def example_info_def)
  have q3: "qualifying ?pass example_cmp_ptr"
    by (simp add: qualifying_def example_cmp_ptr_def isPointerType_def getUnderlyingType_def
        isBasicType_def parseDir_pass_def info_pq_def example_info_def)
  have q0: "\<not> qualifying ?pass n" if "typeOf n \<noteq> TBinaryExpr" for n
    using that qualifying_binary by blast
  have f: "filter (qualifying ?pass) (concat (map preorder ?files)) =
      [cmp_pq NEQ, example_cmp_ptr]"
    by (simp only: ev filter.simps q0 q1 q2 q3 typeOf.simps NodeType.distinct
        if_True if_False not_False_eq_True)
  have d1: "parseDir_Sprintf fset_pq (diagnosticOf typeName ?pass (cmp_pq NEQ)) =
      ''pq.go:1:1: comparing pointers to basic types: string and string'' @ [CHR 0x0A]"
    by (simp add: parseDir_Sprintf_def diagnosticOf_def cmp_pq_def fset_pq_def fmt_d_def
        digits.simps Sprintf_message_def fmt_v_def getUnderlyingType_def parseDir_pass_def
        info_pq_def typeName_def)
  have d2: "parseDir_Sprintf fset_pq (diagnosticOf typeName ?pass example_cmp_ptr) =
      ''pq.go:1:78: comparing pointers to basic types: int and int'' @ [CHR 0x0A]"
    by (simp add: parseDir_Sprintf_def diagnosticOf_def example_cmp_ptr_def fset_pq_def
        fmt_d_def digits.simps Sprintf_message_def fmt_v_def getUnderlyingType_def
        parseDir_pass_def info_pq_def example_info_def typeName_def)
  from run_reports_in_walk_order
    [where str = typeName and fset = fset_pq and files = ?files and info = ?info
       and results = "[''earlier'']"]
  have "run typeName ?pass [''earlier''] =
      (Returned None None,
       [''earlier''] @
       map (\<lambda>n. parseDir_Sprintf fset_pq (diagnosticOf typeName ?pass n))
         (filter (qualifying ?pass) (concat (map preorder ?files))))"
    by (rule conjunct1 [OF conjunct2])
  then have "run typeName ?pass [''earlier''] =
      (Returned None None,
       [''earlier''] @
       map (\<lambda>n. parseDir_Sprintf fset_pq (diagnosticOf typeName ?pass n))
         [cmp_pq NEQ, example_cmp_ptr])"
    by (simp only: f)
  then show ?thesis
    by (simp only: list.map d1 d2 append.simps)
qed

text \<open>
  C9. An operand whose type is a named type with a pointer as its underlying type
  (\<open>type IntPtr *int\<close>) is not a pointer for \<open>isPointerType\<close>, which tests the type
  itself and not its underlying type; a comparison of two such operands is not
  reported, whatever the pointer refers to.
\<close>

theorem run_skips_named_pointer_types:
  assumes "ResultOf pass = Some (Inspector (pre @ BinaryExpr x opPos op y # post))"
    and "op \<in> {EQL, NEQ, LSS, GTR, LEQ, GEQ}"
    and "TypesInfo pass x = Some (Named xname xt)"
    and "TypesInfo pass y = Some (Named yname yt)"
    and "Underlying xt = Pointer xelem"
    and "Underlying yt = Pointer yelem"
  shows "isPointerType pass x = False
     \<and> isPointerType pass y = False
     \<and> snd (run str pass r) =
       Preorder (Inspector post) [TBinaryExpr] (run_func1 str pass)
         (Preorder (Inspector pre) [TBinaryExpr] (run_func1 str pass) r)"
proof -
  have np: "\<not> isPointerType pass x" "\<not> isPointerType pass y"
    using assms(3,4) by (simp_all add: isPointerType_iff)
  then have "\<not> qualifying pass (BinaryExpr x opPos op y)"
    by (simp add: qualifying_def)
  then have "run_func1 str pass (Some (BinaryExpr x opPos op y)) s = s" for s
    by (simp only: run_func1_BinaryExpr if_False)
  then have "snd (run str pass r) =
     Preorder (Inspector post) [TBinaryExpr] (run_func1 str pass)
       (Preorder (Inspector pre) [TBinaryExpr] (run_func1 str pass) r)"
    using run_at [OF assms(1)] by simp
  with np show ?thesis by simp
qed

text \<open>
  Two operands of the named type \<open>pkg.IntPtr\<close>, declared as \<open>*int\<close>: no diagnostic.
\<close>

theorem run_skips_named_pointer_types_witness:
  "EQL \<in> {EQL, NEQ, LSS, GTR, LEQ, GEQ}
   \<and> Underlying (Pointer (Basic Int' ''int'')) = Pointer (Basic Int' ''int'')
   \<and> isPointerType
        (pass_pq EQL (Some (Named ''pkg.IntPtr'' (Pointer (Basic Int' ''int''))))
           (Some (Named ''pkg.IntPtr'' (Pointer (Basic Int' ''int'')))))
        (Ident 1 ''p'') = False
   \<and> snd (run typeName
        (pass_pq EQL (Some (Named ''pkg.IntPtr'' (Pointer (Basic Int' ''int''))))
           (Some (Named ''pkg.IntPtr'' (Pointer (Basic Int' ''int''))))) []) = []"
proof -
  let ?t = "Some (Named ''pkg.IntPtr'' (Pointer (Basic Int' ''int'')))"
  have h2: "EQL \<in> {EQL, NEQ, LSS, GTR, LEQ, GEQ}" by simp
  have h5: "Underlying (Pointer (Basic Int' ''int'')) = Pointer (Basic Int' ''int'')" by simp
  have "isPointerType (pass_pq EQL ?t ?t) (Ident 1 ''p'') = False
     \<and> snd (run typeName (pass_pq EQL ?t ?t) []) = []"
    using run_skips_named_pointer_types
      [OF ResultOf_pass_pq h2 TypesInfo_pass_pq(1) TypesInfo_pass_pq(2) h5 h5,
       where str = typeName and r = "[]"]
    by (simp add: Preorder_leaves Preorder_Nil)
  with h2 h5 show ?thesis by simp
qed

section \<open>The variant analyzer reports the same\<close>

text \<open>
  C10. The variant analyzer, whose \<open>run\<close> calls \<open>Visit\<close> and which classifies with
  \<open>isBasicType2\<close>, has the same outcome and makes the same calls of \<open>Report\<close>, in the
  same order, as \<open>run\<close> of \<open>main.go\<close>, for every pass and every state of the driver.
\<close>

theorem run_v_same_diagnostics: "run_v str pass r = run str pass r"
proof (cases "ResultOf pass")
  case None
  then show ?thesis by (simp add: run_v_def run_def)
next
  case (Some inspect)
  have "(\<lambda>n. Visit str pass n) = run_func1 str pass"
    by (rule ext, rule ext) (rule Visit_eq)
  with Some show ?thesis by (simp add: run_v_def run_def)
qed

end
